theory Spec2Isabelle
  imports Complex_Main "HOL-Library.Multiset"
begin

section \<open>Vectors and configuration\<close>

text \<open>
  The simulation kernels of \<^verbatim>\<open>src/kernel.cu\<close> compute on \<^verbatim>\<open>glm::vec3\<close>, three
  single-precision components. The components are modelled as real numbers: every
  statement below is about the arithmetic the kernels are written to perform, rounding
  left aside. Comparisons, branches, index computations and the data flow between
  buffers are those of the source. Infinities and NaN enter only where a statement
  quantifies over every \<^verbatim>\<open>float\<close>: the position update has a second model for them.
\<close>

datatype vec3 = Vec3 (vx: real) (vy: real) (vz: real)

definition vzero :: vec3 where
  "vzero = Vec3 0 0 0"

definition vadd :: "vec3 \<Rightarrow> vec3 \<Rightarrow> vec3" where
  "vadd a b = Vec3 (vx a + vx b) (vy a + vy b) (vz a + vz b)"

definition vsub :: "vec3 \<Rightarrow> vec3 \<Rightarrow> vec3" where
  "vsub a b = Vec3 (vx a - vx b) (vy a - vy b) (vz a - vz b)"

definition vscale :: "vec3 \<Rightarrow> real \<Rightarrow> vec3" where
  "vscale a s = Vec3 (vx a * s) (vy a * s) (vz a * s)"

definition vdiv :: "vec3 \<Rightarrow> real \<Rightarrow> vec3" where
  "vdiv a s = Vec3 (vx a / s) (vy a / s) (vz a / s)"

definition dot :: "vec3 \<Rightarrow> vec3 \<Rightarrow> real" where
  "dot a b = vx a * vx b + vy a * vy b + vz a * vz b"

text \<open>\<^verbatim>\<open>glm::length(v)\<close> is \<^verbatim>\<open>sqrt(dot(v, v))\<close>, \<^verbatim>\<open>glm::distance(a, b)\<close> is
  \<^verbatim>\<open>length(b - a)\<close> and \<^verbatim>\<open>glm::normalize(v)\<close> is \<^verbatim>\<open>v * inversesqrt(dot(v, v))\<close>.\<close>

definition length_vec3 :: "vec3 \<Rightarrow> real" where
  "length_vec3 v = sqrt (dot v v)"

definition distance :: "vec3 \<Rightarrow> vec3 \<Rightarrow> real" where
  "distance a b = length_vec3 (vsub b a)"

definition normalize_vec3 :: "vec3 \<Rightarrow> vec3" where
  "normalize_vec3 v = vscale v (1 / sqrt (dot v v))"

definition rule1Distance :: real where "rule1Distance = 5"
definition rule2Distance :: real where "rule2Distance = 3"
definition rule3Distance :: real where "rule3Distance = 5"

definition rule1Scale :: real where "rule1Scale = 1 / 100"
definition rule2Scale :: real where "rule2Scale = 1 / 10"
definition rule3Scale :: real where "rule3Scale = 1 / 10"

definition maxSpeed :: real where "maxSpeed = 1"

definition scene_scale :: real where "scene_scale = 100"

section \<open>Position update\<close>

text \<open>
  One thread of \<^verbatim>\<open>kernUpdatePos\<close>: add \<^verbatim>\<open>vel[index] * dt\<close>, then the two rounds of
  per-axis replacements, the lower bound first and the upper bound second.
\<close>

definition wrap_low :: "real \<Rightarrow> real" where
  "wrap_low c = (if c < - scene_scale then scene_scale else c)"

definition wrap_high :: "real \<Rightarrow> real" where
  "wrap_high c = (if c > scene_scale then - scene_scale else c)"

definition updatePos_thread :: "real \<Rightarrow> vec3 \<Rightarrow> vec3 \<Rightarrow> vec3" where
  "updatePos_thread dt p v =
     (let thisPos = vadd p (vscale v dt);
          thisPos = Vec3 (wrap_low (vx thisPos)) (wrap_low (vy thisPos)) (wrap_low (vz thisPos));
          thisPos = Vec3 (wrap_high (vx thisPos)) (wrap_high (vy thisPos)) (wrap_high (vz thisPos))
      in thisPos)"

text \<open>
  The kernel runs one thread for every index below \<open>N\<close>; a thread reads and writes only
  its own slot of \<open>pos\<close>, so the launch is the map of the thread body over the indices.
  The buffers hold \<open>N\<close> elements each, as \<^verbatim>\<open>initSimulation\<close> allocates them.
\<close>

definition kernUpdatePos :: "nat \<Rightarrow> real \<Rightarrow> vec3 list \<Rightarrow> vec3 list \<Rightarrow> vec3 list" where
  "kernUpdatePos N dt pos vel =
     map (\<lambda>index. updatePos_thread dt (pos ! index) (vel ! index)) [0..<N]"

section \<open>Position update on components with special values\<close>

text \<open>
  A \<^verbatim>\<open>float\<close> is a number, one of the two infinities, or NaN, and \<^verbatim>\<open>stepSimulation\<close>
  hands any \<^verbatim>\<open>float\<close> it is given as \<open>dt\<close> to \<^verbatim>\<open>kernUpdatePos\<close>. For the bound on the
  stored positions the kernel is therefore modelled a second time, on components that
  carry these special values. Sums and products of numbers are those of the reals,
  rounding left aside; the special cases follow IEEE 754: an operation on NaN gives
  NaN, zero times an infinity and the sum of opposite infinities are NaN, and every
  comparison with NaN is false.
\<close>

datatype fval = Finite real | PosInf | NegInf | NaN

fun fmul :: "fval \<Rightarrow> fval \<Rightarrow> fval" where
  "fmul NaN b = NaN"
| "fmul a NaN = NaN"
| "fmul (Finite a) (Finite b) = Finite (a * b)"
| "fmul (Finite a) PosInf = (if a = 0 then NaN else if 0 < a then PosInf else NegInf)"
| "fmul (Finite a) NegInf = (if a = 0 then NaN else if 0 < a then NegInf else PosInf)"
| "fmul PosInf (Finite b) = (if b = 0 then NaN else if 0 < b then PosInf else NegInf)"
| "fmul NegInf (Finite b) = (if b = 0 then NaN else if 0 < b then NegInf else PosInf)"
| "fmul PosInf PosInf = PosInf"
| "fmul PosInf NegInf = NegInf"
| "fmul NegInf PosInf = NegInf"
| "fmul NegInf NegInf = PosInf"

fun fadd :: "fval \<Rightarrow> fval \<Rightarrow> fval" where
  "fadd NaN b = NaN"
| "fadd a NaN = NaN"
| "fadd (Finite a) (Finite b) = Finite (a + b)"
| "fadd (Finite a) PosInf = PosInf"
| "fadd (Finite a) NegInf = NegInf"
| "fadd PosInf (Finite b) = PosInf"
| "fadd NegInf (Finite b) = NegInf"
| "fadd PosInf PosInf = PosInf"
| "fadd PosInf NegInf = NaN"
| "fadd NegInf PosInf = NaN"
| "fadd NegInf NegInf = NegInf"

fun fless :: "fval \<Rightarrow> fval \<Rightarrow> bool" where
  "fless NaN b = False"
| "fless a NaN = False"
| "fless (Finite a) (Finite b) = (a < b)"
| "fless (Finite a) PosInf = True"
| "fless (Finite a) NegInf = False"
| "fless PosInf b = False"
| "fless NegInf NegInf = False"
| "fless NegInf b = True"

datatype fvec3 = FVec3 (fx: fval) (fy: fval) (fz: fval)

text \<open>The two tests of the wrap, \<^verbatim>\<open>thisPos.x < -scene_scale\<close> and
  \<^verbatim>\<open>thisPos.x > scene_scale\<close>, on such components.\<close>

definition wrap_low_float :: "fval \<Rightarrow> fval" where
  "wrap_low_float c = (if fless c (Finite (- scene_scale)) then Finite scene_scale else c)"

definition wrap_high_float :: "fval \<Rightarrow> fval" where
  "wrap_high_float c = (if fless (Finite scene_scale) c then Finite (- scene_scale) else c)"

text \<open>\<^verbatim>\<open>thisPos += vel[index] * dt\<close>, then the thread and the launch as above.\<close>

definition moved_float :: "fval \<Rightarrow> fvec3 \<Rightarrow> fvec3 \<Rightarrow> fvec3" where
  "moved_float dt p v =
     FVec3 (fadd (fx p) (fmul (fx v) dt)) (fadd (fy p) (fmul (fy v) dt))
       (fadd (fz p) (fmul (fz v) dt))"

definition updatePos_thread_float :: "fval \<Rightarrow> fvec3 \<Rightarrow> fvec3 \<Rightarrow> fvec3" where
  "updatePos_thread_float dt p v =
     (let thisPos = moved_float dt p v;
          thisPos = FVec3 (wrap_low_float (fx thisPos)) (wrap_low_float (fy thisPos))
                      (wrap_low_float (fz thisPos));
          thisPos = FVec3 (wrap_high_float (fx thisPos)) (wrap_high_float (fy thisPos))
                      (wrap_high_float (fz thisPos))
      in thisPos)"

definition kernUpdatePos_float :: "nat \<Rightarrow> fval \<Rightarrow> fvec3 list \<Rightarrow> fvec3 list \<Rightarrow> fvec3 list" where
  "kernUpdatePos_float N dt pos vel =
     map (\<lambda>index. updatePos_thread_float dt (pos ! index) (vel ! index)) [0..<N]"

text \<open>A component is inside the scene when it is a number between \<open>- scene_scale\<close> and
  \<open>scene_scale\<close>. \<open>finite_vec3\<close> embeds the vectors of real components.\<close>

definition in_bounds :: "fval \<Rightarrow> bool" where
  "in_bounds c = (case c of Finite r \<Rightarrow> - scene_scale \<le> r \<and> r \<le> scene_scale | PosInf \<Rightarrow> False
                  | NegInf \<Rightarrow> False | NaN \<Rightarrow> False)"

definition finite_vec3 :: "vec3 \<Rightarrow> fvec3" where
  "finite_vec3 v = FVec3 (Finite (vx v)) (Finite (vy v)) (Finite (vz v))"

section \<open>Grid parameters\<close>

text \<open>
  \<^verbatim>\<open>initSimulation\<close> computes the grid parameters. A conversion from \<^verbatim>\<open>float\<close> to
  \<^verbatim>\<open>int\<close> truncates toward zero. All \<^verbatim>\<open>int\<close> values of the kernels are modelled as
  integers; under the grid parameters below they stay far inside the 32-bit range.
\<close>

definition float_to_int :: "real \<Rightarrow> int" where
  "float_to_int r = (if 0 \<le> r then \<lfloor>r\<rfloor> else \<lceil>r\<rceil>)"

definition gridCellWidth :: real where
  "gridCellWidth = 2 * max (max rule1Distance rule2Distance) rule3Distance"

definition halfSideCount :: int where
  "halfSideCount = float_to_int (scene_scale / gridCellWidth) + 1"

definition gridSideCount :: int where
  "gridSideCount = 2 * halfSideCount"

definition gridCellCount :: int where
  "gridCellCount = gridSideCount * gridSideCount * gridSideCount"

definition gridInverseCellWidth :: real where
  "gridInverseCellWidth = 1 / gridCellWidth"

definition halfGridWidth :: real where
  "halfGridWidth = gridCellWidth * real_of_int halfSideCount"

text \<open>
  The cell width, the counts and the inverse width are assigned by \<^verbatim>\<open>initSimulation\<close>.
  The global \<^verbatim>\<open>gridMinimum\<close> is not: \<^verbatim>\<open>initSimulation\<close> subtracts \<^verbatim>\<open>halfGridWidth\<close>
  from each of its components, and neither \<^verbatim>\<open>endSimulation\<close> nor anything else sets it
  back. \<open>initSimulation_gridMinimum\<close> is this update, from the value the global holds
  when \<^verbatim>\<open>initSimulation\<close> is entered to the value it holds afterwards.
\<close>

definition initSimulation_gridMinimum :: "vec3 \<Rightarrow> vec3" where
  "initSimulation_gridMinimum g =
     Vec3 (vx g - halfGridWidth) (vy g - halfGridWidth) (vz g - halfGridWidth)"

text \<open>
  The global is zero when the process starts, so \<open>gridMinimum\<close> is its value after the
  first \<^verbatim>\<open>initSimulation\<close> of a process, the value the simulation steps below read.
  After a second \<^verbatim>\<open>initSimulation\<close> in the same process the global holds
  \<open>initSimulation_gridMinimum gridMinimum\<close>.
\<close>

definition gridMinimum :: vec3 where
  "gridMinimum = initSimulation_gridMinimum (Vec3 0 0 0)"

section \<open>Grid indices, sort and cell boundaries\<close>

datatype ivec3 = IVec3 (ix: int) (iy: int) (iz: int)

definition to_ivec3 :: "vec3 \<Rightarrow> ivec3" where
  "to_ivec3 v = IVec3 (float_to_int (vx v)) (float_to_int (vy v)) (float_to_int (vz v))"

definition floor_vec3 :: "vec3 \<Rightarrow> vec3" where
  "floor_vec3 v = Vec3 (real_of_int \<lfloor>vx v\<rfloor>) (real_of_int \<lfloor>vy v\<rfloor>) (real_of_int \<lfloor>vz v\<rfloor>)"

definition gridIndex3Dto1D :: "int \<Rightarrow> int \<Rightarrow> int \<Rightarrow> int \<Rightarrow> int" where
  "gridIndex3Dto1D x y z gridResolution =
     x + y * gridResolution + z * gridResolution * gridResolution"

definition computeIndices_cell :: "int \<Rightarrow> vec3 \<Rightarrow> real \<Rightarrow> vec3 \<Rightarrow> int" where
  "computeIndices_cell gridResolution gridMin inverseCellWidth p =
     (let cell_index_3D = to_ivec3 (floor_vec3 (vscale (vsub p gridMin) inverseCellWidth))
      in gridIndex3Dto1D (ix cell_index_3D) (iy cell_index_3D) (iz cell_index_3D) gridResolution)"

text \<open>\<^verbatim>\<open>kernComputeIndices\<close> returns the two buffers it fills, \<^verbatim>\<open>indices\<close> and
  \<^verbatim>\<open>gridIndices\<close>.\<close>

definition kernComputeIndices ::
  "nat \<Rightarrow> int \<Rightarrow> vec3 \<Rightarrow> real \<Rightarrow> vec3 list \<Rightarrow> int list \<times> int list" where
  "kernComputeIndices N gridResolution gridMin inverseCellWidth pos =
     (map (\<lambda>index. int index) [0..<N],
      map (\<lambda>index. computeIndices_cell gridResolution gridMin inverseCellWidth (pos ! index))
        [0..<N])"

text \<open>
  Modelled from the spec: \<^verbatim>\<open>thrust::sort_by_key\<close> is a library routine whose code is not
  part of the source file. Section 4.3 of the specification gives its contract: the
  parallel key and value arrays are sorted by key ascending, the order among equal keys
  being unconstrained. The model sorts the zipped pairs by insertion on the key,
  one of the orders the contract allows.
\<close>

definition sort_by_key :: "int list \<Rightarrow> int list \<Rightarrow> int list \<times> int list" where
  "sort_by_key keys vals =
     (let ps = sort_key fst (zip keys vals) in (map fst ps, map snd ps))"

text \<open>
  The two cell tables hold \<^verbatim>\<open>gridCellCount\<close> integers each. A table is modelled as
  the device memory at the table's address, a function from the cell index to the
  stored integer; the cells \<open>0 \<le> c < gridCellCount\<close> are the allocation. What the memory
  holds before a step (the values of the previous step, or whatever \<^verbatim>\<open>cudaMalloc\<close>
  returned) is an input of the step.
\<close>

type_synonym int_table = "int \<Rightarrow> int"

definition kernResetIntBuffer :: "nat \<Rightarrow> int_table \<Rightarrow> int \<Rightarrow> int_table" where
  "kernResetIntBuffer N intBuffer v =
     fold (\<lambda>index buf. buf(int index := v)) [0..<N] intBuffer"

text \<open>
  One thread of \<^verbatim>\<open>kernIdentifyCellStartEnd\<close>, with its early return for
  \<open>particle_index = 0\<close>. The launch folds the threads over the two tables; on sorted keys
  no two threads write the same entry, so the order of the fold does not matter.
\<close>

definition identifyCellStartEnd_thread ::
  "nat \<Rightarrow> int list \<Rightarrow> nat \<Rightarrow> int_table \<times> int_table \<Rightarrow> int_table \<times> int_table" where
  "identifyCellStartEnd_thread N particleGridIndices particle_index tabs =
     (let gridCellStartIndices = fst tabs;
          gridCellEndIndices = snd tabs;
          current_grid_index = particleGridIndices ! particle_index
      in if particle_index = 0
         then (gridCellStartIndices(current_grid_index := int particle_index), gridCellEndIndices)
         else
           (let previous_grid_index = particleGridIndices ! (particle_index - 1);
                gridCellStartIndices =
                  (if current_grid_index \<noteq> previous_grid_index
                   then gridCellStartIndices(current_grid_index := int particle_index)
                   else gridCellStartIndices);
                gridCellEndIndices =
                  (if current_grid_index \<noteq> previous_grid_index
                   then gridCellEndIndices(previous_grid_index := int particle_index)
                   else gridCellEndIndices);
                gridCellEndIndices =
                  (if int particle_index = int N - 1
                   then gridCellEndIndices(current_grid_index := int particle_index + 1)
                   else gridCellEndIndices)
            in (gridCellStartIndices, gridCellEndIndices)))"

definition kernIdentifyCellStartEnd ::
  "nat \<Rightarrow> int list \<Rightarrow> int_table \<Rightarrow> int_table \<Rightarrow> int_table \<times> int_table" where
  "kernIdentifyCellStartEnd N particleGridIndices gridCellStartIndices gridCellEndIndices =
     fold (identifyCellStartEnd_thread N particleGridIndices) [0..<N]
       (gridCellStartIndices, gridCellEndIndices)"

definition kernShuffleBuffer :: "nat \<Rightarrow> int list \<Rightarrow> vec3 list \<Rightarrow> vec3 list" where
  "kernShuffleBuffer N particleArrayIndices original_ordering =
     map (\<lambda>particle_index. original_ordering ! nat (particleArrayIndices ! particle_index))
       [0..<N]"

section \<open>Rule evaluation\<close>

text \<open>The five accumulators of a rule evaluation; the two neighbor counts are
  \<^verbatim>\<open>float\<close> variables in the source.\<close>

record accum =
  perceived_center_rule1 :: vec3
  dodging_velocity_rule2 :: vec3
  cohesion_velocity_rule3 :: vec3
  neighbors_rule1 :: real
  neighbors_rule3 :: real

definition accum_init :: accum where
  "accum_init =
     \<lparr>perceived_center_rule1 = vzero, dodging_velocity_rule2 = vzero,
      cohesion_velocity_rule3 = vzero, neighbors_rule1 = 0, neighbors_rule3 = 0\<rparr>"

text \<open>The body of the loop over boids, after its self test: the three distance tests,
  shared by the three evaluators.\<close>

definition accumulate_boid :: "vec3 \<Rightarrow> vec3 \<Rightarrow> vec3 \<Rightarrow> accum \<Rightarrow> accum" where
  "accumulate_boid self_position on_pos on_vel a =
     (let d = distance self_position on_pos;
          a = (if d < rule1Distance
               then a\<lparr>perceived_center_rule1 := vadd (perceived_center_rule1 a) on_pos,
                      neighbors_rule1 := neighbors_rule1 a + 1\<rparr>
               else a);
          a = (if d < rule2Distance
               then a\<lparr>dodging_velocity_rule2 :=
                        vadd (dodging_velocity_rule2 a) (vsub self_position on_pos)\<rparr>
               else a);
          a = (if d < rule3Distance
               then a\<lparr>cohesion_velocity_rule3 := vadd (cohesion_velocity_rule3 a) on_vel,
                      neighbors_rule3 := neighbors_rule3 a + 1\<rparr>
               else a)
      in a)"

text \<open>The final updates before summing, and the sum of the three contributions.\<close>

definition velocity_change :: "vec3 \<Rightarrow> accum \<Rightarrow> vec3" where
  "velocity_change self_position a =
     (let adhesion_velocity_rule1 =
            (if neighbors_rule1 a > 0
             then vscale (vsub (vdiv (perceived_center_rule1 a) (neighbors_rule1 a)) self_position)
                    rule1Scale
             else vzero);
          dodging = vscale (dodging_velocity_rule2 a) rule2Scale;
          cohesion =
            (if neighbors_rule3 a > 0
             then vscale (vdiv (cohesion_velocity_rule3 a) (neighbors_rule3 a)) rule3Scale
             else vzero)
      in vadd (vadd adhesion_velocity_rule1 dodging) cohesion)"

text \<open>The speed clamp, written out at the end of each of the three velocity kernels.\<close>

definition clamp_speed :: "vec3 \<Rightarrow> vec3" where
  "clamp_speed v =
     (if length_vec3 v > maxSpeed then vscale (normalize_vec3 v) maxSpeed else v)"

subsection \<open>Brute force\<close>

definition bruteForce_loop :: "nat \<Rightarrow> nat \<Rightarrow> vec3 list \<Rightarrow> vec3 list \<Rightarrow> accum" where
  "bruteForce_loop N iSelf pos vel =
     fold (\<lambda>on_index a.
             if on_index = iSelf then a
             else accumulate_boid (pos ! iSelf) (pos ! on_index) (vel ! on_index) a)
       [0..<N] accum_init"

definition computeVelocityChange :: "nat \<Rightarrow> nat \<Rightarrow> vec3 list \<Rightarrow> vec3 list \<Rightarrow> vec3" where
  "computeVelocityChange N iSelf pos vel =
     velocity_change (pos ! iSelf) (bruteForce_loop N iSelf pos vel)"

definition bruteForce_unclamped :: "nat \<Rightarrow> vec3 list \<Rightarrow> vec3 list \<Rightarrow> nat \<Rightarrow> vec3" where
  "bruteForce_unclamped N pos vel1 index =
     vadd (vel1 ! index) (computeVelocityChange N index pos vel1)"

definition kernUpdateVelocityBruteForce :: "nat \<Rightarrow> vec3 list \<Rightarrow> vec3 list \<Rightarrow> vec3 list" where
  "kernUpdateVelocityBruteForce N pos vel1 =
     map (\<lambda>index. clamp_speed (bruteForce_unclamped N pos vel1 index)) [0..<N]"

subsection \<open>Candidate cells of the grid variants\<close>

definition clamp :: "real \<Rightarrow> real \<Rightarrow> real \<Rightarrow> real" where
  "clamp x minVal maxVal = min (max x minVal) maxVal"

definition clamp_vec3 :: "vec3 \<Rightarrow> vec3 \<Rightarrow> vec3 \<Rightarrow> vec3" where
  "clamp_vec3 v lo hi =
     Vec3 (clamp (vx v) (vx lo) (vx hi)) (clamp (vy v) (vy lo) (vy hi))
       (clamp (vz v) (vz lo) (vz hi))"

definition splat :: "real \<Rightarrow> vec3" where
  "splat c = Vec3 c c c"

definition max_distance_val :: real where
  "max_distance_val = max rule1Distance (max rule2Distance rule3Distance)"

definition grid_min_3D :: "int \<Rightarrow> vec3 \<Rightarrow> real \<Rightarrow> vec3 \<Rightarrow> ivec3" where
  "grid_min_3D gridResolution gridMin inverseCellWidth particle_position =
     (let zeroed_particle_position = vsub particle_position gridMin;
          min_cell_index_3D =
            vscale (vsub zeroed_particle_position (splat max_distance_val)) inverseCellWidth
      in to_ivec3 (clamp_vec3 min_cell_index_3D (splat 0) (splat (real_of_int gridResolution))))"

definition grid_max_3D :: "int \<Rightarrow> vec3 \<Rightarrow> real \<Rightarrow> vec3 \<Rightarrow> ivec3" where
  "grid_max_3D gridResolution gridMin inverseCellWidth particle_position =
     (let zeroed_particle_position = vsub particle_position gridMin;
          max_cell_index_3D =
            vscale (vadd zeroed_particle_position (splat max_distance_val)) inverseCellWidth
      in to_ivec3 (clamp_vec3 max_cell_index_3D (splat 0) (splat (real_of_int gridResolution))))"

text \<open>The flattened indices \<^verbatim>\<open>checking_cell_index_1D\<close> in the order the three nested
  loops visit them: \<open>z\<close> outermost, \<open>x\<close> innermost, both bounds inclusive.\<close>

definition candidate_cells :: "int \<Rightarrow> vec3 \<Rightarrow> real \<Rightarrow> vec3 \<Rightarrow> int list" where
  "candidate_cells gridResolution gridMin inverseCellWidth particle_position =
     (let lo = grid_min_3D gridResolution gridMin inverseCellWidth particle_position;
          hi = grid_max_3D gridResolution gridMin inverseCellWidth particle_position
      in concat (map (\<lambda>z. concat (map (\<lambda>y. map (\<lambda>x. gridIndex3Dto1D x y z gridResolution)
                                               [ix lo..ix hi])
                                  [iy lo..iy hi]))
                  [iz lo..iz hi]))"

text \<open>The test that makes the search \<^verbatim>\<open>continue\<close> with the next cell.\<close>

definition cell_skipped :: "nat \<Rightarrow> int \<Rightarrow> int \<Rightarrow> bool" where
  "cell_skipped N start_boid_index end_boid_index \<longleftrightarrow>
     start_boid_index < 0 \<or> start_boid_index \<ge> int N
     \<or> end_boid_index < 0 \<or> end_boid_index \<ge> int N"

text \<open>The values of \<open>b\<close> for which the innermost loop body runs in one candidate cell.\<close>

definition cell_slots :: "nat \<Rightarrow> int_table \<Rightarrow> int_table \<Rightarrow> int \<Rightarrow> int list" where
  "cell_slots N gridCellStartIndices gridCellEndIndices checking_cell_index_1D =
     (let start_boid_index = gridCellStartIndices checking_cell_index_1D;
          end_boid_index = gridCellEndIndices checking_cell_index_1D
      in if cell_skipped N start_boid_index end_boid_index then []
         else [start_boid_index..end_boid_index - 1])"

subsection \<open>Scattered grid\<close>

definition scattered_loop ::
  "nat \<Rightarrow> int \<Rightarrow> vec3 \<Rightarrow> real \<Rightarrow> int_table \<Rightarrow> int_table \<Rightarrow> int list
     \<Rightarrow> vec3 list \<Rightarrow> vec3 list \<Rightarrow> nat \<Rightarrow> accum" where
  "scattered_loop N gridResolution gridMin inverseCellWidth gridCellStartIndices
       gridCellEndIndices particleArrayIndices pos vel1 particle_index =
     fold (\<lambda>checking_cell_index_1D.
             fold (\<lambda>b a.
                     let on_boid = particleArrayIndices ! nat b
                     in if on_boid = int particle_index then a
                        else accumulate_boid (pos ! particle_index) (pos ! nat on_boid)
                               (vel1 ! nat on_boid) a)
               (cell_slots N gridCellStartIndices gridCellEndIndices checking_cell_index_1D))
       (candidate_cells gridResolution gridMin inverseCellWidth (pos ! particle_index))
       accum_init"

definition scattered_unclamped ::
  "nat \<Rightarrow> int \<Rightarrow> vec3 \<Rightarrow> real \<Rightarrow> int_table \<Rightarrow> int_table \<Rightarrow> int list
     \<Rightarrow> vec3 list \<Rightarrow> vec3 list \<Rightarrow> nat \<Rightarrow> vec3" where
  "scattered_unclamped N gridResolution gridMin inverseCellWidth gridCellStartIndices
       gridCellEndIndices particleArrayIndices pos vel1 particle_index =
     vadd (vel1 ! particle_index)
       (velocity_change (pos ! particle_index)
          (scattered_loop N gridResolution gridMin inverseCellWidth gridCellStartIndices
             gridCellEndIndices particleArrayIndices pos vel1 particle_index))"

definition kernUpdateVelNeighborSearchScattered ::
  "nat \<Rightarrow> int \<Rightarrow> vec3 \<Rightarrow> real \<Rightarrow> int_table \<Rightarrow> int_table \<Rightarrow> int list
     \<Rightarrow> vec3 list \<Rightarrow> vec3 list \<Rightarrow> vec3 list" where
  "kernUpdateVelNeighborSearchScattered N gridResolution gridMin inverseCellWidth
       gridCellStartIndices gridCellEndIndices particleArrayIndices pos vel1 =
     map (\<lambda>particle_index.
            clamp_speed
              (scattered_unclamped N gridResolution gridMin inverseCellWidth
                 gridCellStartIndices gridCellEndIndices particleArrayIndices pos vel1
                 particle_index))
       [0..<N]"

subsection \<open>Coherent grid\<close>

definition coherent_loop ::
  "nat \<Rightarrow> int \<Rightarrow> vec3 \<Rightarrow> real \<Rightarrow> int_table \<Rightarrow> int_table
     \<Rightarrow> vec3 list \<Rightarrow> vec3 list \<Rightarrow> nat \<Rightarrow> accum" where
  "coherent_loop N gridResolution gridMin inverseCellWidth gridCellStartIndices
       gridCellEndIndices pos vel1 particle_index =
     fold (\<lambda>checking_cell_index_1D.
             fold (\<lambda>b a.
                     if b = int particle_index then a
                     else accumulate_boid (pos ! particle_index) (pos ! nat b) (vel1 ! nat b) a)
               (cell_slots N gridCellStartIndices gridCellEndIndices checking_cell_index_1D))
       (candidate_cells gridResolution gridMin inverseCellWidth (pos ! particle_index))
       accum_init"

definition coherent_unclamped ::
  "nat \<Rightarrow> int \<Rightarrow> vec3 \<Rightarrow> real \<Rightarrow> int_table \<Rightarrow> int_table
     \<Rightarrow> vec3 list \<Rightarrow> vec3 list \<Rightarrow> nat \<Rightarrow> vec3" where
  "coherent_unclamped N gridResolution gridMin inverseCellWidth gridCellStartIndices
       gridCellEndIndices pos vel1 particle_index =
     vadd (vel1 ! particle_index)
       (velocity_change (pos ! particle_index)
          (coherent_loop N gridResolution gridMin inverseCellWidth gridCellStartIndices
             gridCellEndIndices pos vel1 particle_index))"

definition kernUpdateVelNeighborSearchCoherent ::
  "nat \<Rightarrow> int \<Rightarrow> vec3 \<Rightarrow> real \<Rightarrow> int_table \<Rightarrow> int_table
     \<Rightarrow> vec3 list \<Rightarrow> vec3 list \<Rightarrow> vec3 list" where
  "kernUpdateVelNeighborSearchCoherent N gridResolution gridMin inverseCellWidth
       gridCellStartIndices gridCellEndIndices pos vel1 =
     map (\<lambda>particle_index.
            clamp_speed
              (coherent_unclamped N gridResolution gridMin inverseCellWidth
                 gridCellStartIndices gridCellEndIndices pos vel1 particle_index))
       [0..<N]"

section \<open>Simulation steps\<close>

text \<open>The device buffers of the kernel state. \<open>numObjects\<close> is the \<open>N\<close> of
  \<^verbatim>\<open>initSimulation\<close>; the grid parameters are the constants above.\<close>

record sim_state =
  numObjects :: nat
  dev_pos :: "vec3 list"
  dev_vel1 :: "vec3 list"
  dev_vel2 :: "vec3 list"
  dev_particleArrayIndices :: "int list"
  dev_particleGridIndices :: "int list"
  dev_gridCellStartIndices :: int_table
  dev_gridCellEndIndices :: int_table
  dev_shuffledPos :: "vec3 list"
  dev_shuffledVel1 :: "vec3 list"

text \<open>\<^verbatim>\<open>cudaMemcpy\<close> of \<open>n\<close> elements from \<open>src\<close> over the start of \<open>dst\<close>.\<close>

definition cudaMemcpy :: "'a list \<Rightarrow> 'a list \<Rightarrow> nat \<Rightarrow> 'a list" where
  "cudaMemcpy dst src n = take n src @ drop n dst"

definition stepSimulationNaive :: "real \<Rightarrow> sim_state \<Rightarrow> sim_state" where
  "stepSimulationNaive dt s =
     (let s = s\<lparr>dev_vel2 :=
                  kernUpdateVelocityBruteForce (numObjects s) (dev_pos s) (dev_vel1 s)\<rparr>;
          s = s\<lparr>dev_pos := kernUpdatePos (numObjects s) dt (dev_pos s) (dev_vel1 s)\<rparr>;
          s = s\<lparr>dev_vel1 := cudaMemcpy (dev_vel1 s) (dev_vel2 s) (numObjects s)\<rparr>
      in s)"

text \<open>The stages the two grid variants share: index computation, sort, the two resets
  (each launched with \<open>numObjects\<close> as its count) and the cell boundaries.\<close>

definition build_grid :: "sim_state \<Rightarrow> sim_state" where
  "build_grid s =
     (let r = kernComputeIndices (numObjects s) gridSideCount gridMinimum gridInverseCellWidth
                (dev_pos s);
          s = s\<lparr>dev_particleArrayIndices := fst r, dev_particleGridIndices := snd r\<rparr>;
          r = sort_by_key (dev_particleGridIndices s) (dev_particleArrayIndices s);
          s = s\<lparr>dev_particleGridIndices := fst r, dev_particleArrayIndices := snd r\<rparr>;
          s = s\<lparr>dev_gridCellStartIndices :=
                  kernResetIntBuffer (numObjects s) (dev_gridCellStartIndices s) (- 1)\<rparr>;
          s = s\<lparr>dev_gridCellEndIndices :=
                  kernResetIntBuffer (numObjects s) (dev_gridCellEndIndices s) (- 1)\<rparr>;
          t = kernIdentifyCellStartEnd (numObjects s) (dev_particleGridIndices s)
                (dev_gridCellStartIndices s) (dev_gridCellEndIndices s);
          s = s\<lparr>dev_gridCellStartIndices := fst t, dev_gridCellEndIndices := snd t\<rparr>
      in s)"

definition stepSimulationScatteredGrid :: "real \<Rightarrow> sim_state \<Rightarrow> sim_state" where
  "stepSimulationScatteredGrid dt s =
     (let s = build_grid s;
          s = s\<lparr>dev_vel2 :=
                  kernUpdateVelNeighborSearchScattered (numObjects s) gridSideCount gridMinimum
                    gridInverseCellWidth (dev_gridCellStartIndices s) (dev_gridCellEndIndices s)
                    (dev_particleArrayIndices s) (dev_pos s) (dev_vel1 s)\<rparr>;
          s = s\<lparr>dev_pos := kernUpdatePos (numObjects s) dt (dev_pos s) (dev_vel1 s)\<rparr>;
          s = s\<lparr>dev_vel1 := cudaMemcpy (dev_vel1 s) (dev_vel2 s) (numObjects s)\<rparr>
      in s)"

definition stepSimulationCoherentGrid :: "real \<Rightarrow> sim_state \<Rightarrow> sim_state" where
  "stepSimulationCoherentGrid dt s =
     (let s = build_grid s;
          s = s\<lparr>dev_shuffledPos :=
                  kernShuffleBuffer (numObjects s) (dev_particleArrayIndices s) (dev_pos s)\<rparr>;
          s = s\<lparr>dev_shuffledVel1 :=
                  kernShuffleBuffer (numObjects s) (dev_particleArrayIndices s) (dev_vel1 s)\<rparr>;
          s = s\<lparr>dev_pos := cudaMemcpy (dev_pos s) (dev_shuffledPos s) (numObjects s)\<rparr>;
          s = s\<lparr>dev_vel1 := cudaMemcpy (dev_vel1 s) (dev_shuffledVel1 s) (numObjects s)\<rparr>;
          s = s\<lparr>dev_vel2 :=
                  kernUpdateVelNeighborSearchCoherent (numObjects s) gridSideCount gridMinimum
                    gridInverseCellWidth (dev_gridCellStartIndices s) (dev_gridCellEndIndices s)
                    (dev_pos s) (dev_vel1 s)\<rparr>;
          s = s\<lparr>dev_pos := kernUpdatePos (numObjects s) dt (dev_pos s) (dev_vel1 s)\<rparr>;
          s = s\<lparr>dev_vel1 := cudaMemcpy (dev_vel1 s) (dev_vel2 s) (numObjects s)\<rparr>
      in s)"

text \<open>A state as \<^verbatim>\<open>initSimulation\<close> sizes it: each per-boid buffer
  holds \<open>numObjects\<close> elements.\<close>

definition sized :: "sim_state \<Rightarrow> bool" where
  "sized s \<longleftrightarrow>
     length (dev_pos s) = numObjects s \<and> length (dev_vel1 s) = numObjects s
     \<and> length (dev_vel2 s) = numObjects s"

text \<open>Every position component inside the scene, the range the wrap of
  \<^verbatim>\<open>kernUpdatePos\<close> and the initial random positions keep.\<close>

definition in_scene :: "vec3 \<Rightarrow> bool" where
  "in_scene p \<longleftrightarrow>
     - scene_scale \<le> vx p \<and> vx p \<le> scene_scale
     \<and> - scene_scale \<le> vy p \<and> vy p \<le> scene_scale
     \<and> - scene_scale \<le> vz p \<and> vz p \<le> scene_scale"

section \<open>Boids that enter the accumulations\<close>

text \<open>
  The lists of indices for which a rule evaluation runs the three distance tests: for
  the brute-force loop the boid indices that pass the self test; for the grid variants
  the slots \<open>b\<close> of all candidate cells in visiting order, resolved through
  \<^verbatim>\<open>particleArrayIndices\<close> in the scattered variant, and then the self test.
\<close>

definition bruteForce_contributors :: "nat \<Rightarrow> nat \<Rightarrow> nat list" where
  "bruteForce_contributors N iSelf = filter (\<lambda>on_index. on_index \<noteq> iSelf) [0..<N]"

definition visited_slots :: "nat \<Rightarrow> int \<Rightarrow> vec3 \<Rightarrow> real \<Rightarrow> int_table \<Rightarrow> int_table \<Rightarrow> vec3 \<Rightarrow> int list" where
  "visited_slots N gridResolution gridMin inverseCellWidth gridCellStartIndices gridCellEndIndices
       particle_position =
     concat (map (cell_slots N gridCellStartIndices gridCellEndIndices)
       (candidate_cells gridResolution gridMin inverseCellWidth particle_position))"

definition scattered_contributors ::
  "nat \<Rightarrow> int \<Rightarrow> vec3 \<Rightarrow> real \<Rightarrow> int_table \<Rightarrow> int_table \<Rightarrow> int list \<Rightarrow> vec3 list \<Rightarrow> nat \<Rightarrow> int list" where
  "scattered_contributors N gridResolution gridMin inverseCellWidth gridCellStartIndices
       gridCellEndIndices particleArrayIndices pos particle_index =
     filter (\<lambda>on_boid. on_boid \<noteq> int particle_index)
       (map (\<lambda>b. particleArrayIndices ! nat b)
          (visited_slots N gridResolution gridMin inverseCellWidth gridCellStartIndices
             gridCellEndIndices (pos ! particle_index)))"

definition coherent_contributors ::
  "nat \<Rightarrow> int \<Rightarrow> vec3 \<Rightarrow> real \<Rightarrow> int_table \<Rightarrow> int_table \<Rightarrow> vec3 list \<Rightarrow> nat \<Rightarrow> int list" where
  "coherent_contributors N gridResolution gridMin inverseCellWidth gridCellStartIndices
       gridCellEndIndices pos particle_index =
     filter (\<lambda>b. b \<noteq> int particle_index)
       (visited_slots N gridResolution gridMin inverseCellWidth gridCellStartIndices
          gridCellEndIndices (pos ! particle_index))"


section \<open>Two concrete states\<close>

text \<open>
  Two boids one unit apart, at rest, in the same grid cell, with both cell tables
  holding the sentinel everywhere; and a single boid with cell tables of zeroed memory.
\<close>

definition pair_state :: sim_state where
  "pair_state =
     \<lparr>numObjects = 2,
      dev_pos = [Vec3 0 0 0, Vec3 1 0 0],
      dev_vel1 = [Vec3 0 0 0, Vec3 0 0 0],
      dev_vel2 = [Vec3 0 0 0, Vec3 0 0 0],
      dev_particleArrayIndices = [0, 0],
      dev_particleGridIndices = [0, 0],
      dev_gridCellStartIndices = (\<lambda>c. - 1),
      dev_gridCellEndIndices = (\<lambda>c. - 1),
      dev_shuffledPos = [Vec3 0 0 0, Vec3 0 0 0],
      dev_shuffledVel1 = [Vec3 0 0 0, Vec3 0 0 0]\<rparr>"

definition single_state :: sim_state where
  "single_state =
     \<lparr>numObjects = 1,
      dev_pos = [Vec3 0 0 0],
      dev_vel1 = [Vec3 0 0 0],
      dev_vel2 = [Vec3 0 0 0],
      dev_particleArrayIndices = [0],
      dev_particleGridIndices = [0],
      dev_gridCellStartIndices = (\<lambda>c. 0),
      dev_gridCellEndIndices = (\<lambda>c. 0),
      dev_shuffledPos = [Vec3 0 0 0],
      dev_shuffledVel1 = [Vec3 0 0 0]\<rparr>"




section \<open>Evaluation lemmas\<close>

lemma grid_params:
  "gridCellWidth = 10" "halfSideCount = 11" "gridSideCount = 22" "gridCellCount = 10648"
  "gridInverseCellWidth = 1/10" "halfGridWidth = 110" "gridMinimum = Vec3 (-110) (-110) (-110)"
  by (simp_all add: gridCellWidth_def halfSideCount_def gridSideCount_def gridCellCount_def
      gridInverseCellWidth_def halfGridWidth_def gridMinimum_def initSimulation_gridMinimum_def
      float_to_int_def
      rule1Distance_def rule2Distance_def rule3Distance_def scene_scale_def)

lemma upt_two: "[0..<2] = [0, 1]"
  by (simp add: upt_rec)

lemmas vec_defs = vadd_def vsub_def vscale_def vdiv_def dot_def vzero_def splat_def
  length_vec3_def distance_def normalize_vec3_def
lemmas rule_consts = rule1Distance_def rule2Distance_def rule3Distance_def
  rule1Scale_def rule2Scale_def rule3Scale_def maxSpeed_def scene_scale_def max_distance_val_def
lemmas cell_defs = candidate_cells_def grid_min_3D_def grid_max_3D_def clamp_vec3_def clamp_def
  to_ivec3_def floor_vec3_def float_to_int_def gridIndex3Dto1D_def
lemmas brute_defs = kernUpdateVelocityBruteForce_def bruteForce_unclamped_def
  computeVelocityChange_def bruteForce_loop_def accumulate_boid_def velocity_change_def
  clamp_speed_def accum_init_def
lemmas grid_defs = build_grid_def kernComputeIndices_def computeIndices_cell_def
  sort_by_key_def kernResetIntBuffer_def kernIdentifyCellStartEnd_def
  identifyCellStartEnd_thread_def

lemma pair_naive_vel:
  "kernUpdateVelocityBruteForce 2 [Vec3 0 0 0, Vec3 1 0 0] [Vec3 0 0 0, Vec3 0 0 0]
     = [Vec3 (- 9 / 100) 0 0, Vec3 (9 / 100) 0 0]"
  by (simp add: brute_defs vec_defs rule_consts Let_def upt_two)

lemma pair_cells:
  "candidate_cells 22 (Vec3 (- 110) (- 110) (- 110)) (1 / 10) (Vec3 0 0 0)
     = [5070, 5071, 5092, 5093, 5554, 5555, 5576, 5577]"
  "candidate_cells 22 (Vec3 (- 110) (- 110) (- 110)) (1 / 10) (Vec3 1 0 0)
     = [5070, 5071, 5092, 5093, 5554, 5555, 5576, 5577]"
  by (simp_all add: cell_defs Let_def vec_defs rule_consts)

lemma pair_build_grid:
  "build_grid pair_state =
     pair_state\<lparr>dev_particleArrayIndices := [0, 1],
       dev_particleGridIndices := [5577, 5577],
       dev_gridCellStartIndices := (\<lambda>c. - 1)(5577 := 0),
       dev_gridCellEndIndices := (\<lambda>c. - 1)(5577 := 2)\<rparr>"
  by (simp add: grid_defs pair_state_def grid_params Let_def vec_defs to_ivec3_def
      floor_vec3_def float_to_int_def gridIndex3Dto1D_def fun_eq_iff upt_two)

lemma pair_slots:
  "cell_slots 2 ((\<lambda>c. - 1)(5577 := 0)) ((\<lambda>c. - 1)(5577 := 2)) c = []"
  by (simp add: cell_slots_def cell_skipped_def Let_def)

lemma pair_naive_step:
  "dev_vel1 (stepSimulationNaive 1 pair_state) = [Vec3 (- 9 / 100) 0 0, Vec3 (9 / 100) 0 0]"
  "dev_pos (stepSimulationNaive 1 pair_state) = [Vec3 0 0 0, Vec3 1 0 0]"
  "dev_vel2 (stepSimulationNaive 1 pair_state) = [Vec3 (- 9 / 100) 0 0, Vec3 (9 / 100) 0 0]"
  by (simp_all add: stepSimulationNaive_def Let_def pair_state_def pair_naive_vel cudaMemcpy_def
      kernUpdatePos_def updatePos_thread_def vec_defs wrap_low_def wrap_high_def scene_scale_def upt_two)

lemma pair_scattered_step:
  "dev_vel1 (stepSimulationScatteredGrid 1 pair_state) = [Vec3 0 0 0, Vec3 0 0 0]"
  by (simp add: stepSimulationScatteredGrid_def Let_def pair_build_grid)
     (simp add: pair_state_def kernUpdateVelNeighborSearchScattered_def scattered_unclamped_def
      scattered_loop_def grid_params pair_cells pair_slots velocity_change_def accum_init_def
      clamp_speed_def vec_defs rule_consts cudaMemcpy_def upt_two)

lemma pair_coherent_step:
  "dev_vel1 (stepSimulationCoherentGrid 1 pair_state) = [Vec3 0 0 0, Vec3 0 0 0]"
  by (simp add: stepSimulationCoherentGrid_def Let_def pair_build_grid)
     (simp add: pair_state_def kernUpdateVelNeighborSearchCoherent_def coherent_unclamped_def
      coherent_loop_def grid_params kernShuffleBuffer_def pair_cells pair_slots velocity_change_def
      accum_init_def clamp_speed_def vec_defs rule_consts cudaMemcpy_def upt_two)

lemma single_build_grid:
  "dev_gridCellStartIndices (build_grid single_state) = (\<lambda>c. 0)(0 := - 1, 5577 := 0)"
  "dev_gridCellEndIndices (build_grid single_state) = (\<lambda>c. 0)(0 := - 1)"
  "dev_particleGridIndices (build_grid single_state) = [5577]"
  by (simp_all add: grid_defs single_state_def grid_params Let_def vec_defs to_ivec3_def
      floor_vec3_def float_to_int_def gridIndex3Dto1D_def fun_eq_iff)

section \<open>Position wrap\<close>

lemma wrap_bounds:
  "- scene_scale \<le> wrap_high (wrap_low c) \<and> wrap_high (wrap_low c) \<le> scene_scale"
  by (simp add: wrap_low_def wrap_high_def scene_scale_def)

lemma wrap_cases:
  "(c > scene_scale \<longrightarrow> wrap_high (wrap_low c) = - scene_scale)
   \<and> (c < - scene_scale \<longrightarrow> wrap_high (wrap_low c) = scene_scale)
   \<and> (- scene_scale \<le> c \<and> c \<le> scene_scale \<longrightarrow> wrap_high (wrap_low c) = c)"
  by (simp add: wrap_low_def wrap_high_def scene_scale_def)

text \<open>On real components the two replacements leave every component inside the scene.\<close>

lemma kernUpdatePos_in_scene_real:
  "index < N \<Longrightarrow> in_scene (kernUpdatePos N dt pos vel ! index)"
  by (simp add: kernUpdatePos_def updatePos_thread_def Let_def in_scene_def wrap_bounds)

text \<open>The model with special values agrees with the model on real components wherever
  the position, the velocity and \<open>dt\<close> are numbers.\<close>

lemma wrap_float_number: "c \<noteq> NaN \<Longrightarrow> in_bounds (wrap_high_float (wrap_low_float c))"
  by (cases c) (simp_all add: wrap_low_float_def wrap_high_float_def in_bounds_def scene_scale_def)

lemma wrap_float_nan: "wrap_high_float (wrap_low_float NaN) = NaN"
  by (simp add: wrap_low_float_def wrap_high_float_def)

lemma wrap_float_finite:
  "wrap_high_float (wrap_low_float (Finite c)) = Finite (wrap_high (wrap_low c))"
  by (simp add: wrap_low_float_def wrap_high_float_def wrap_low_def wrap_high_def scene_scale_def)

lemma updatePos_thread_float_finite:
  "updatePos_thread_float (Finite dt) (finite_vec3 p) (finite_vec3 v)
     = finite_vec3 (updatePos_thread dt p v)"
  by (simp add: updatePos_thread_float_def updatePos_thread_def moved_float_def finite_vec3_def
      Let_def vadd_def vscale_def wrap_float_finite)

lemma kernUpdatePos_float_finite:
  assumes "N \<le> length pos" and "N \<le> length vel"
  shows "kernUpdatePos_float N (Finite dt) (map finite_vec3 pos) (map finite_vec3 vel)
           = map finite_vec3 (kernUpdatePos N dt pos vel)"
  using assms
  by (simp add: kernUpdatePos_float_def kernUpdatePos_def updatePos_thread_float_finite)

text \<open>
  Claim C10, as stated: after \<^verbatim>\<open>kernUpdatePos\<close> every position component lies between
  \<open>- scene_scale\<close> and \<open>scene_scale\<close>, for any input position, any velocity and any
  \<open>dt\<close>. It fails for a boid at rest at the origin and \<open>dt\<close> infinite: zero times
  infinity is NaN, NaN passes neither test of the wrap, and NaN is stored.
\<close>

theorem kernUpdatePos_nan_counterexample:
  "fx (kernUpdatePos_float 1 PosInf [FVec3 (Finite 0) (Finite 0) (Finite 0)]
         [FVec3 (Finite 0) (Finite 0) (Finite 0)] ! 0) = NaN
   \<and> \<not> in_bounds (fx (kernUpdatePos_float 1 PosInf [FVec3 (Finite 0) (Finite 0) (Finite 0)]
         [FVec3 (Finite 0) (Finite 0) (Finite 0)] ! 0))"
  by (simp add: kernUpdatePos_float_def updatePos_thread_float_def moved_float_def Let_def
      wrap_low_float_def wrap_high_float_def in_bounds_def)

text \<open>
  Claim C10, amended. After \<^verbatim>\<open>kernUpdatePos\<close>, for every agent and every axis, a
  component that is not NaN once velocity times \<open>dt\<close> has been added, a number or an
  infinity, is stored as a number between \<open>- scene_scale\<close> and \<open>scene_scale\<close>; a
  component that is NaN after the addition is stored as NaN.
\<close>

theorem kernUpdatePos_float_in_scene:
  assumes "index < N"
  shows "let moved = moved_float dt (pos ! index) (vel ! index);
             stored = kernUpdatePos_float N dt pos vel ! index
         in (fx moved \<noteq> NaN \<longrightarrow> in_bounds (fx stored))
            \<and> (fx moved = NaN \<longrightarrow> fx stored = NaN)
            \<and> (fy moved \<noteq> NaN \<longrightarrow> in_bounds (fy stored))
            \<and> (fy moved = NaN \<longrightarrow> fy stored = NaN)
            \<and> (fz moved \<noteq> NaN \<longrightarrow> in_bounds (fz stored))
            \<and> (fz moved = NaN \<longrightarrow> fz stored = NaN)"
  using assms
  by (simp add: kernUpdatePos_float_def updatePos_thread_float_def Let_def wrap_float_number
      wrap_float_nan)

theorem kernUpdatePos_float_in_scene_witness:
  "(0::nat) < 1
   \<and> moved_float PosInf (FVec3 (Finite 100) (Finite 0) NegInf)
        (FVec3 (Finite 1) (Finite 0) (Finite 1)) = FVec3 PosInf NaN NaN
   \<and> in_bounds (fx (kernUpdatePos_float 1 PosInf [FVec3 (Finite 100) (Finite 0) NegInf]
                      [FVec3 (Finite 1) (Finite 0) (Finite 1)] ! 0))
   \<and> fy (kernUpdatePos_float 1 PosInf [FVec3 (Finite 100) (Finite 0) NegInf]
            [FVec3 (Finite 1) (Finite 0) (Finite 1)] ! 0) = NaN"
proof -
  have m: "moved_float PosInf (FVec3 (Finite 100) (Finite 0) NegInf)
        (FVec3 (Finite 1) (Finite 0) (Finite 1)) = FVec3 PosInf NaN NaN"
    by (simp add: moved_float_def)
  show ?thesis
    using kernUpdatePos_float_in_scene [of 0 1 PosInf "[FVec3 (Finite 100) (Finite 0) NegInf]"
        "[FVec3 (Finite 1) (Finite 0) (Finite 1)]"]
    by (simp add: Let_def m)
qed

text \<open>
  Claim C5, as stated: a component that is \<open>scene_scale + \<epsilon>\<close> after the velocity has
  been added is stored as \<open>- scene_scale + \<epsilon>\<close>. It fails for a boid at \<open>x = 100\<close>
  moving with velocity \<open>1\<close> for \<open>dt = 1\<close>: the component \<open>101\<close> is stored as \<open>- 100\<close>,
  not as \<open>- 99\<close>.
\<close>

theorem wrap_overshoot_counterexample:
  "vx (vadd (Vec3 100 0 0) (vscale (Vec3 1 0 0) 1)) = scene_scale + 1
   \<and> vx (kernUpdatePos 1 1 [Vec3 100 0 0] [Vec3 1 0 0] ! 0) \<noteq> - scene_scale + 1"
  by (simp add: kernUpdatePos_def updatePos_thread_def Let_def vadd_def vscale_def
      wrap_low_def wrap_high_def scene_scale_def)

text \<open>
  Claim C5, amended. For every agent and every axis, a component that is greater than
  \<open>scene_scale\<close> after the velocity has been added is stored as exactly \<open>- scene_scale\<close>,
  a component less than \<open>- scene_scale\<close> is stored as exactly \<open>scene_scale\<close>, and a
  component inside the scene is stored as it is: the boid reappears on the opposite
  face and the overshoot is discarded.
\<close>

theorem wrap_teleports_to_face:
  assumes "index < N"
  shows "let moved = vadd (pos ! index) (vscale (vel ! index) dt);
             stored = kernUpdatePos N dt pos vel ! index
         in ((vx moved > scene_scale \<longrightarrow> vx stored = - scene_scale)
             \<and> (vx moved < - scene_scale \<longrightarrow> vx stored = scene_scale)
             \<and> (- scene_scale \<le> vx moved \<and> vx moved \<le> scene_scale \<longrightarrow> vx stored = vx moved))
          \<and> ((vy moved > scene_scale \<longrightarrow> vy stored = - scene_scale)
             \<and> (vy moved < - scene_scale \<longrightarrow> vy stored = scene_scale)
             \<and> (- scene_scale \<le> vy moved \<and> vy moved \<le> scene_scale \<longrightarrow> vy stored = vy moved))
          \<and> ((vz moved > scene_scale \<longrightarrow> vz stored = - scene_scale)
             \<and> (vz moved < - scene_scale \<longrightarrow> vz stored = scene_scale)
             \<and> (- scene_scale \<le> vz moved \<and> vz moved \<le> scene_scale \<longrightarrow> vz stored = vz moved))"
  using assms wrap_cases
  by (simp add: kernUpdatePos_def updatePos_thread_def Let_def)

theorem wrap_teleports_to_face_witness:
  "(0::nat) < 1
   \<and> vadd (Vec3 100 (- 100) 0) (vscale (Vec3 1 (- 1) 0) 1) = Vec3 101 (- 101) 0
   \<and> kernUpdatePos 1 1 [Vec3 100 (- 100) 0] [Vec3 1 (- 1) 0] ! 0 = Vec3 (- 100) 100 0"
proof -
  have m: "vadd (Vec3 100 (- 100) 0) (vscale (Vec3 1 (- 1) 0) 1) = Vec3 101 (- 101) 0"
    by (simp add: vadd_def vscale_def)
  have "vx (kernUpdatePos 1 1 [Vec3 100 (- 100) 0] [Vec3 1 (- 1) 0] ! 0) = - 100
        \<and> vy (kernUpdatePos 1 1 [Vec3 100 (- 100) 0] [Vec3 1 (- 1) 0] ! 0) = 100
        \<and> vz (kernUpdatePos 1 1 [Vec3 100 (- 100) 0] [Vec3 1 (- 1) 0] ! 0) = 0"
    using wrap_teleports_to_face [of 0 1 "[Vec3 100 (- 100) 0]" "[Vec3 1 (- 1) 0]" 1]
    by (simp add: Let_def m scene_scale_def)
  then show ?thesis
    using m by (cases "kernUpdatePos 1 1 [Vec3 100 (- 100) 0] [Vec3 1 (- 1) 0] ! 0") simp
qed

section \<open>Speed clamp\<close>














section \<open>Candidate cells\<close>

lemma max_distance_val_eq: "max_distance_val = 5"
  by (simp add: max_distance_val_def rule1Distance_def rule2Distance_def rule3Distance_def)


lemma float_to_int_max_bound:
  assumes "c \<le> scene_scale"
  shows "float_to_int (clamp ((c - (- 110) + 5) * (1 / 10)) 0 22) \<le> 21"
proof -
  have "(c - (- 110) + 5) * (1 / 10) < 22" using assms by (simp add: scene_scale_def)
  then have "clamp ((c - (- 110) + 5) * (1 / 10)) 0 22 < 22" by (simp add: clamp_def)
  moreover have "0 \<le> clamp ((c - (- 110) + 5) * (1 / 10)) 0 22" by (simp add: clamp_def)
  ultimately show ?thesis by (simp add: float_to_int_def floor_le_iff)
qed

lemma grid_min_nonneg:
  "0 \<le> ix (grid_min_3D 22 g w p)" "0 \<le> iy (grid_min_3D 22 g w p)" "0 \<le> iz (grid_min_3D 22 g w p)"
  by (simp_all add: grid_min_3D_def Let_def to_ivec3_def clamp_vec3_def splat_def
      float_to_int_def clamp_def)

lemma grid_max_bound:
  assumes "in_scene p"
  shows "ix (grid_max_3D 22 (Vec3 (- 110) (- 110) (- 110)) (1 / 10) p) \<le> 21"
    and "iy (grid_max_3D 22 (Vec3 (- 110) (- 110) (- 110)) (1 / 10) p) \<le> 21"
    and "iz (grid_max_3D 22 (Vec3 (- 110) (- 110) (- 110)) (1 / 10) p) \<le> 21"
  using assms float_to_int_max_bound[of "vx p"] float_to_int_max_bound[of "vy p"]
    float_to_int_max_bound[of "vz p"]
  by (simp_all add: grid_max_3D_def Let_def to_ivec3_def clamp_vec3_def splat_def
      vsub_def vadd_def vscale_def max_distance_val_eq in_scene_def)

lemma flat_bound:
  fixes x y z :: int
  assumes "0 \<le> x" "x \<le> 21" "0 \<le> y" "y \<le> 21" "0 \<le> z" "z \<le> 21"
  shows "0 \<le> gridIndex3Dto1D x y z 22 \<and> gridIndex3Dto1D x y z 22 < 10648"
  using assms by (simp add: gridIndex3Dto1D_def)

text \<open>
  After the first \<^verbatim>\<open>initSimulation\<close> of a process, for every position inside the scene,
  every flattened candidate index at which the neighbor search reads the cell tables
  is at least \<open>0\<close> and less than \<open>gridCellCount\<close>: the upper cell coordinate is at most
  \<open>21\<close>, one below the clamp bound \<open>gridSideCount = 22\<close>.
\<close>

lemma candidate_cells_first_init:
  assumes "in_scene p"
    and "c \<in> set (candidate_cells gridSideCount gridMinimum gridInverseCellWidth p)"
  shows "0 \<le> c \<and> c < gridCellCount"
proof -
  let ?lo = "grid_min_3D 22 (Vec3 (- 110) (- 110) (- 110)) (1 / 10) p"
  let ?hi = "grid_max_3D 22 (Vec3 (- 110) (- 110) (- 110)) (1 / 10) p"
  from assms(2) obtain x y z where c: "c = gridIndex3Dto1D x y z 22"
    and x: "ix ?lo \<le> x" "x \<le> ix ?hi" and y: "iy ?lo \<le> y" "y \<le> iy ?hi"
    and z: "iz ?lo \<le> z" "z \<le> iz ?hi"
    by (auto simp add: candidate_cells_def grid_params Let_def)
  have "0 \<le> x" "0 \<le> y" "0 \<le> z"
    using x(1) y(1) z(1) grid_min_nonneg[of "Vec3 (- 110) (- 110) (- 110)" "1 / 10" p]
    by linarith+
  moreover have "x \<le> 21" "y \<le> 21" "z \<le> 21"
    using x(2) y(2) z(2) grid_max_bound[OF assms(1)] by linarith+
  ultimately show ?thesis
    using flat_bound[of x y z] by (simp add: c grid_params)
qed


text \<open>
  Claim C6 says that for every agent position reachable under the wrap policy, every
  flattened candidate index at which the neighbor search of the two grid variants reads
  the cell tables lies in the table, below \<open>gridCellCount\<close>. The code does otherwise
  once \<^verbatim>\<open>initSimulation\<close> has run a second time in a process: \<^verbatim>\<open>gridMinimum\<close> is then
  \<open>- 220\<close> on each axis, and for a boid at the centre of the scene the clamp of the cell
  coordinates to the inclusive bound \<open>gridSideCount = 22\<close> lets the coordinates run from
  \<open>21\<close> to \<open>22\<close>; seven of the eight flattened indices are \<open>gridCellCount = 10648\<close> or
  more.
\<close>

theorem candidate_cells_after_second_init:
  "initSimulation_gridMinimum gridMinimum = Vec3 (- 220) (- 220) (- 220)
   \<and> in_scene (Vec3 0 0 0)
   \<and> candidate_cells gridSideCount (initSimulation_gridMinimum gridMinimum)
        gridInverseCellWidth (Vec3 0 0 0)
       = [10647, 10648, 10669, 10670, 11131, 11132, 11153, 11154]
   \<and> gridCellCount = 10648"
proof -
  have g: "initSimulation_gridMinimum (Vec3 (- 110) (- 110) (- 110))
             = Vec3 (- 220) (- 220) (- 220)"
    by (simp add: grid_params initSimulation_gridMinimum_def)
  have c: "candidate_cells 22 (Vec3 (- 220) (- 220) (- 220)) (1 / 10) (Vec3 0 0 0)
             = [10647, 10648, 10669, 10670, 11131, 11132, 11153, 11154]"
    by (simp add: cell_defs Let_def vec_defs rule_consts)
  show ?thesis
    by (simp add: grid_params g c in_scene_def scene_scale_def)
qed

section \<open>Self exclusion\<close>

lemma fold_skip_filter:
  "fold (\<lambda>x a. if P x then a else f x a) xs a0 = fold f (filter (\<lambda>x. \<not> P x) xs) a0"
  by (induction xs arbitrary: a0) simp_all

lemma fold_fold_concat: "fold (\<lambda>c. fold f (g c)) cs a0 = fold f (concat (map g cs)) a0"
  by (induction cs arbitrary: a0) simp_all

lemma fold_map_arg: "fold (\<lambda>x. f (h x)) xs a0 = fold f (map h xs) a0"
  by (induction xs arbitrary: a0) simp_all

text \<open>
  Claim C9. In all three variants the accumulators of an agent are the result of
  running the three distance tests over a list of boids that does not contain the
  agent itself: the brute-force loop over the other indices, the scattered search over
  the boids its slots resolve to, and the coherent search over the slots of the
  reordered arrays, where the slot index is the agent.
\<close>

theorem self_excluded:
  "bruteForce_loop N iSelf pos vel =
     fold (\<lambda>j. accumulate_boid (pos ! iSelf) (pos ! j) (vel ! j))
       (bruteForce_contributors N iSelf) accum_init
   \<and> iSelf \<notin> set (bruteForce_contributors N iSelf)
   \<and> scattered_loop N res gmin icw starts ends pai pos vel particle_index =
     fold (\<lambda>j. accumulate_boid (pos ! particle_index) (pos ! nat j) (vel ! nat j))
       (scattered_contributors N res gmin icw starts ends pai pos particle_index) accum_init
   \<and> int particle_index \<notin> set (scattered_contributors N res gmin icw starts ends pai pos particle_index)
   \<and> coherent_loop N res gmin icw starts ends pos vel particle_index =
     fold (\<lambda>b. accumulate_boid (pos ! particle_index) (pos ! nat b) (vel ! nat b))
       (coherent_contributors N res gmin icw starts ends pos particle_index) accum_init
   \<and> int particle_index \<notin> set (coherent_contributors N res gmin icw starts ends pos particle_index)"
proof -
  have a: "bruteForce_loop N iSelf pos vel =
     fold (\<lambda>j. accumulate_boid (pos ! iSelf) (pos ! j) (vel ! j))
       (bruteForce_contributors N iSelf) accum_init"
    unfolding bruteForce_loop_def bruteForce_contributors_def
    by (rule fold_skip_filter)
  have b: "scattered_loop N res gmin icw starts ends pai pos vel particle_index =
     fold (\<lambda>j. accumulate_boid (pos ! particle_index) (pos ! nat j) (vel ! nat j))
       (scattered_contributors N res gmin icw starts ends pai pos particle_index) accum_init"
    unfolding scattered_loop_def scattered_contributors_def visited_slots_def Let_def
    by (simp only: fold_fold_concat
        fold_map_arg[of "\<lambda>j a. if j = int particle_index then a else accumulate_boid (pos ! particle_index) (pos ! nat j) (vel ! nat j) a" "\<lambda>b. pai ! nat b", symmetric]
        fold_skip_filter[symmetric])
  have c: "coherent_loop N res gmin icw starts ends pos vel particle_index =
     fold (\<lambda>b. accumulate_boid (pos ! particle_index) (pos ! nat b) (vel ! nat b))
       (coherent_contributors N res gmin icw starts ends pos particle_index) accum_init"
    unfolding coherent_loop_def coherent_contributors_def visited_slots_def
    by (simp only: fold_fold_concat fold_skip_filter)
  show ?thesis
    using a b c
    by (simp add: bruteForce_contributors_def scattered_contributors_def coherent_contributors_def)
qed


section \<open>Sort\<close>

lemma sort_by_key_props:
  "sorted (fst (sort_by_key keys vals))"
  "mset (zip (fst (sort_by_key keys vals)) (snd (sort_by_key keys vals))) = mset (zip keys vals)"
  by (simp_all add: sort_by_key_def Let_def zip_map_fst_snd)

lemma mset_snd_sort:
  "length keys = length vals \<Longrightarrow> mset (snd (sort_by_key keys vals)) = mset vals"
proof -
  assume l: "length keys = length vals"
  have "mset (snd (sort_by_key keys vals)) = image_mset snd (mset (sort_key fst (zip keys vals)))"
    by (simp add: sort_by_key_def Let_def)
  also have "\<dots> = image_mset snd (mset (zip keys vals))" by simp
  also have "\<dots> = mset (map snd (zip keys vals))" by simp
  also have "\<dots> = mset vals" using l by simp
  finally show ?thesis .
qed

text \<open>
  Claim C7. After the key/value sort of a grid-variant step the grid-cell indices are
  non-decreasing and the permutation indices are a permutation of \<open>0, \<dots>, N - 1\<close>:
  each of these values occurs exactly once, for every \<open>N\<close> including \<open>0\<close>.
\<close>

theorem sorted_permutation:
  "sorted (dev_particleGridIndices (build_grid s))
   \<and> mset (dev_particleArrayIndices (build_grid s)) = mset (map int [0..<numObjects s])
   \<and> distinct (dev_particleArrayIndices (build_grid s))
   \<and> set (dev_particleArrayIndices (build_grid s)) = {v. 0 \<le> v \<and> v < int (numObjects s)}
   \<and> length (dev_particleArrayIndices (build_grid s)) = numObjects s
   \<and> mset (zip (dev_particleGridIndices (build_grid s))
              (dev_particleArrayIndices (build_grid s)))
       = mset (zip (snd (kernComputeIndices (numObjects s) gridSideCount gridMinimum
                           gridInverseCellWidth (dev_pos s)))
                (fst (kernComputeIndices (numObjects s) gridSideCount gridMinimum
                        gridInverseCellWidth (dev_pos s))))"
proof -
  let ?r = "kernComputeIndices (numObjects s) gridSideCount gridMinimum gridInverseCellWidth (dev_pos s)"
  have pai: "dev_particleArrayIndices (build_grid s) = snd (sort_by_key (snd ?r) (fst ?r))"
    and pgi: "dev_particleGridIndices (build_grid s) = fst (sort_by_key (snd ?r) (fst ?r))"
    by (simp_all add: build_grid_def Let_def)
  have len: "length (snd ?r) = length (fst ?r)" by (simp add: kernComputeIndices_def)
  have m: "mset (dev_particleArrayIndices (build_grid s)) = mset (map int [0..<numObjects s])"
    using mset_snd_sort[OF len] by (simp add: pai) (simp add: kernComputeIndices_def)
  have d: "distinct (map int [0..<numObjects s])" by (simp add: distinct_map)
  have d': "distinct (dev_particleArrayIndices (build_grid s))"
    using m d by (metis mset_eq_imp_distinct_iff)
  have s': "set (dev_particleArrayIndices (build_grid s)) = set (map int [0..<numObjects s])"
    using m by (metis mset_eq_setD)
  have s'': "set (map int [0..<numObjects s]) = {v. 0 \<le> v \<and> v < int (numObjects s)}"
  proof (rule set_eqI)
    fix v show "v \<in> set (map int [0..<numObjects s]) \<longleftrightarrow> v \<in> {v. 0 \<le> v \<and> v < int (numObjects s)}"
      by (auto simp add: image_iff intro: bexI[of _ "nat v"])
  qed
  have l: "length (dev_particleArrayIndices (build_grid s)) = numObjects s"
    using m by (metis mset_eq_length length_map length_upt diff_zero)
  have z: "mset (zip (dev_particleGridIndices (build_grid s))
              (dev_particleArrayIndices (build_grid s))) = mset (zip (snd ?r) (fst ?r))"
    by (simp only: pai pgi sort_by_key_props)
  show ?thesis using m d' s' s'' l z by (simp add: pgi sort_by_key_props)
qed

section \<open>Data flow of a step\<close>

lemma build_grid_keeps:
  "numObjects (build_grid s) = numObjects s"
  "dev_pos (build_grid s) = dev_pos s"
  "dev_vel1 (build_grid s) = dev_vel1 s"
  by (simp_all add: build_grid_def Let_def)

lemma cudaMemcpy_nth: "index < n \<Longrightarrow> n \<le> length src \<Longrightarrow> cudaMemcpy dst src n ! index = src ! index"
  by (simp add: cudaMemcpy_def nth_append)

lemma cudaMemcpy_all: "length src = n \<Longrightarrow> length dst = n \<Longrightarrow> cudaMemcpy dst src n = src"
  by (simp add: cudaMemcpy_def)

lemma kernel_lengths:
  "length (kernUpdateVelocityBruteForce N pos vel1) = N"
  "length (kernUpdateVelNeighborSearchScattered N res gmin icw starts ends pai pos vel1) = N"
  "length (kernUpdateVelNeighborSearchCoherent N res gmin icw starts ends pos vel1) = N"
  "length (kernShuffleBuffer N pai buf) = N"
  "length (kernUpdatePos N dt pos vel) = N"
  by (simp_all add: kernUpdateVelocityBruteForce_def kernUpdateVelNeighborSearchScattered_def
      kernUpdateVelNeighborSearchCoherent_def kernShuffleBuffer_def kernUpdatePos_def)

text \<open>
  Claim C4, as stated: the position is advanced by the next-velocity the rule evaluator
  wrote in this step. It fails in \<^verbatim>\<open>stepSimulationNaive\<close> on the two boids one unit
  apart with \<open>dt = 1\<close>: the evaluator writes the next-velocity \<open>(- 9/100, 0, 0)\<close> for
  boid \<open>0\<close>, and the position of boid \<open>0\<close> stays \<open>(0, 0, 0)\<close>.
\<close>

theorem position_next_velocity_counterexample:
  "dev_vel2 (stepSimulationNaive 1 pair_state) ! 0 = Vec3 (- 9 / 100) 0 0
   \<and> dev_pos (stepSimulationNaive 1 pair_state) ! 0
       \<noteq> updatePos_thread 1 (dev_pos pair_state ! 0)
           (dev_vel2 (stepSimulationNaive 1 pair_state) ! 0)"
  by (simp add: pair_naive_step)
     (simp add: pair_state_def updatePos_thread_def Let_def vec_defs wrap_low_def wrap_high_def
      scene_scale_def)

text \<open>
  Claim C4, amended. In each of the three step functions the position of an agent is
  advanced by its current velocity times \<open>dt\<close>, the velocity it had before the rule
  evaluation of this step, and then wrapped; in the coherent variant the agent of a slot
  is the one the sorted permutation moved there. After that the next-velocity, the
  clamped result of the rule evaluation, is promoted to current velocity.
\<close>

theorem position_uses_current_velocity:
  assumes "sized s" and "index < numObjects s"
  shows "dev_pos (stepSimulationNaive dt s) ! index
           = updatePos_thread dt (dev_pos s ! index) (dev_vel1 s ! index)
       \<and> dev_vel1 (stepSimulationNaive dt s) ! index
           = clamp_speed (bruteForce_unclamped (numObjects s) (dev_pos s) (dev_vel1 s) index)
       \<and> dev_pos (stepSimulationScatteredGrid dt s) ! index
           = updatePos_thread dt (dev_pos s ! index) (dev_vel1 s ! index)
       \<and> dev_vel1 (stepSimulationScatteredGrid dt s) ! index
           = clamp_speed
               (scattered_unclamped (numObjects s) gridSideCount gridMinimum gridInverseCellWidth
                  (dev_gridCellStartIndices (build_grid s)) (dev_gridCellEndIndices (build_grid s))
                  (dev_particleArrayIndices (build_grid s)) (dev_pos s) (dev_vel1 s) index)
       \<and> (let moved = nat (dev_particleArrayIndices (build_grid s) ! index)
          in dev_pos (stepSimulationCoherentGrid dt s) ! index
               = updatePos_thread dt (dev_pos s ! moved) (dev_vel1 s ! moved))
       \<and> dev_vel1 (stepSimulationCoherentGrid dt s) ! index
           = clamp_speed
               (coherent_unclamped (numObjects s) gridSideCount gridMinimum gridInverseCellWidth
                  (dev_gridCellStartIndices (build_grid s)) (dev_gridCellEndIndices (build_grid s))
                  (kernShuffleBuffer (numObjects s) (dev_particleArrayIndices (build_grid s))
                     (dev_pos s))
                  (kernShuffleBuffer (numObjects s) (dev_particleArrayIndices (build_grid s))
                     (dev_vel1 s))
                  index)"
proof -
  let ?N = "numObjects s"
  from assms(1) have lp: "length (dev_pos s) = ?N" and lv: "length (dev_vel1 s) = ?N"
    by (simp_all add: sized_def)
  have naive: "dev_pos (stepSimulationNaive dt s) ! index
           = updatePos_thread dt (dev_pos s ! index) (dev_vel1 s ! index)"
    "dev_vel1 (stepSimulationNaive dt s) ! index
           = clamp_speed (bruteForce_unclamped ?N (dev_pos s) (dev_vel1 s) index)"
    using assms(2)
    by (simp_all add: stepSimulationNaive_def Let_def cudaMemcpy_nth kernel_lengths)
       (simp_all add: kernUpdatePos_def kernUpdateVelocityBruteForce_def)
  have scat: "dev_pos (stepSimulationScatteredGrid dt s) ! index
           = updatePos_thread dt (dev_pos s ! index) (dev_vel1 s ! index)"
    "dev_vel1 (stepSimulationScatteredGrid dt s) ! index
           = clamp_speed
               (scattered_unclamped ?N gridSideCount gridMinimum gridInverseCellWidth
                  (dev_gridCellStartIndices (build_grid s)) (dev_gridCellEndIndices (build_grid s))
                  (dev_particleArrayIndices (build_grid s)) (dev_pos s) (dev_vel1 s) index)"
    using assms(2)
    by (simp_all add: stepSimulationScatteredGrid_def Let_def cudaMemcpy_nth kernel_lengths
        build_grid_keeps)
       (simp_all add: kernUpdatePos_def kernUpdateVelNeighborSearchScattered_def)
  let ?pai = "dev_particleArrayIndices (build_grid s)"
  have sp: "cudaMemcpy (dev_pos s) (kernShuffleBuffer ?N ?pai (dev_pos s)) ?N
              = kernShuffleBuffer ?N ?pai (dev_pos s)"
    and sv: "cudaMemcpy (dev_vel1 s) (kernShuffleBuffer ?N ?pai (dev_vel1 s)) ?N
              = kernShuffleBuffer ?N ?pai (dev_vel1 s)"
    by (simp_all add: cudaMemcpy_all kernel_lengths lp lv)
  have coh: "dev_pos (stepSimulationCoherentGrid dt s) ! index
               = updatePos_thread dt (dev_pos s ! nat (?pai ! index)) (dev_vel1 s ! nat (?pai ! index))"
    "dev_vel1 (stepSimulationCoherentGrid dt s) ! index
           = clamp_speed
               (coherent_unclamped ?N gridSideCount gridMinimum gridInverseCellWidth
                  (dev_gridCellStartIndices (build_grid s)) (dev_gridCellEndIndices (build_grid s))
                  (kernShuffleBuffer ?N ?pai (dev_pos s))
                  (kernShuffleBuffer ?N ?pai (dev_vel1 s))
                  index)"
    using assms(2)
    by (simp_all add: stepSimulationCoherentGrid_def Let_def cudaMemcpy_nth kernel_lengths
        build_grid_keeps sp sv)
       (simp_all add: kernUpdatePos_def kernUpdateVelNeighborSearchCoherent_def
        kernShuffleBuffer_def)
  show ?thesis
    using naive scat coh by (simp add: Let_def)
qed


theorem position_uses_current_velocity_witness:
  "sized pair_state \<and> 0 < numObjects pair_state
   \<and> dev_pos (stepSimulationNaive 1 pair_state) ! 0 = Vec3 0 0 0
   \<and> dev_pos (stepSimulationScatteredGrid 1 pair_state) ! 0 = Vec3 0 0 0
   \<and> dev_pos (stepSimulationCoherentGrid 1 pair_state) ! 0 = Vec3 0 0 0"
proof -
  have a: "sized pair_state" and b: "0 < numObjects pair_state"
    by (simp_all add: sized_def pair_state_def)
  have c: "updatePos_thread 1 (Vec3 0 0 0) (Vec3 0 0 0) = Vec3 0 0 0"
    by (simp add: updatePos_thread_def Let_def vec_defs wrap_low_def wrap_high_def
        scene_scale_def)
  have d: "dev_pos pair_state ! 0 = Vec3 0 0 0" "dev_vel1 pair_state ! 0 = Vec3 0 0 0"
    by (simp_all add: pair_state_def)
  show ?thesis
    using a b position_uses_current_velocity [OF a b, of 1]
    by (simp add: Let_def pair_build_grid c d)
qed

section \<open>The three variants on two neighbors\<close>

text \<open>
  Claim C1 says that from the same positions and velocities and with the same \<open>dt\<close>,
  one step of \<^verbatim>\<open>stepSimulationScatteredGrid\<close> and one step of
  \<^verbatim>\<open>stepSimulationCoherentGrid\<close> give every agent the velocity and position of one step
  of \<^verbatim>\<open>stepSimulationNaive\<close>, up to a tolerance such as \<open>1/10000\<close>. The code does
  otherwise on the two boids one unit apart, both at rest, with \<open>dt = 1\<close>: the naive
  step gives boid \<open>0\<close> the velocity \<open>(- 9/100, 0, 0)\<close>, while both grid steps leave it at
  rest, a difference of \<open>9/100\<close>.
\<close>

theorem variants_differ_on_pair:
  "dev_vel1 (stepSimulationNaive 1 pair_state) ! 0 = Vec3 (- 9 / 100) 0 0
   \<and> dev_vel1 (stepSimulationScatteredGrid 1 pair_state) ! 0 = Vec3 0 0 0
   \<and> dev_vel1 (stepSimulationCoherentGrid 1 pair_state) ! 0 = Vec3 0 0 0
   \<and> \<bar>vx (dev_vel1 (stepSimulationNaive 1 pair_state) ! 0)
       - vx (dev_vel1 (stepSimulationScatteredGrid 1 pair_state) ! 0)\<bar> > 1 / 10000
   \<and> \<bar>vx (dev_vel1 (stepSimulationNaive 1 pair_state) ! 0)
       - vx (dev_vel1 (stepSimulationCoherentGrid 1 pair_state) ! 0)\<bar> > 1 / 10000"
  by (simp add: pair_naive_step pair_scattered_step pair_coherent_step)

text \<open>
  Claim C2 says that the neighbor search skips a candidate cell exactly when its range
  is invalid, and that a cell whose range ends at \<open>N\<close>, the last occupied cell, is
  iterated. The code does otherwise on the two boids one unit apart: the sorted slots of
  their common cell \<open>5577\<close> are \<open>0\<close> and \<open>1\<close>, \<^verbatim>\<open>kernIdentifyCellStartEnd\<close> stores the
  range from \<open>0\<close> to \<open>2 = N\<close>, and the test of the neighbor search skips a cell whose
  end index is \<open>N\<close>, so the cell contributes no slot and boid \<open>0\<close> sees no neighbor.
\<close>

theorem last_cell_skipped:
  "dev_gridCellStartIndices (build_grid pair_state) 5577 = 0
   \<and> dev_gridCellEndIndices (build_grid pair_state) 5577 = int (numObjects pair_state)
   \<and> cell_skipped (numObjects pair_state) 0 (int (numObjects pair_state))
   \<and> cell_slots (numObjects pair_state) (dev_gridCellStartIndices (build_grid pair_state))
        (dev_gridCellEndIndices (build_grid pair_state)) 5577 = []
   \<and> scattered_contributors (numObjects pair_state) gridSideCount gridMinimum
        gridInverseCellWidth (dev_gridCellStartIndices (build_grid pair_state))
        (dev_gridCellEndIndices (build_grid pair_state))
        (dev_particleArrayIndices (build_grid pair_state)) (dev_pos pair_state) 0 = []"
  by (simp add: pair_build_grid)
     (simp add: pair_state_def cell_skipped_def pair_slots scattered_contributors_def
      visited_slots_def)

section \<open>Cell boundaries\<close>

text \<open>What one thread of \<^verbatim>\<open>kernIdentifyCellStartEnd\<close> does to one entry of each table.\<close>

lemma thread_start:
  "fst (identifyCellStartEnd_thread N keys p t) c =
     (if keys ! p = c \<and> (p = 0 \<or> keys ! (p - 1) \<noteq> c) then int p else fst t c)"
  by (auto simp add: identifyCellStartEnd_thread_def Let_def)

lemma thread_end:
  "snd (identifyCellStartEnd_thread N keys p t) c =
     (if 0 < p \<and> int p = int N - 1 \<and> keys ! p = c then int p + 1
      else if 0 < p \<and> keys ! (p - 1) = c \<and> keys ! p \<noteq> c then int p
      else snd t c)"
  by (auto simp add: identifyCellStartEnd_thread_def Let_def)

lemma start_written:
  assumes "p < n" and "keys ! p = c" and "p = 0 \<or> keys ! (p - 1) \<noteq> c"
    and "\<forall>q. p < q \<and> q < n \<longrightarrow> \<not> (keys ! q = c \<and> keys ! (q - 1) \<noteq> c)"
  shows "fst (fold (identifyCellStartEnd_thread N keys) [0..<n] t) c = int p"
  using assms
proof (induction n)
  case 0
  then show ?case by simp
next
  case (Suc n)
  show ?case
  proof (cases "p = n")
    case True
    with Suc.prems show ?thesis by (simp add: thread_start)
  next
    case False
    with Suc.prems have pn: "p < n" by simp
    from Suc.prems pn have "\<not> (keys ! n = c \<and> keys ! (n - 1) \<noteq> c)" by simp
    moreover have "n \<noteq> 0" using pn by simp
    moreover have "fst (fold (identifyCellStartEnd_thread N keys) [0..<n] t) c = int p"
      using Suc.IH[OF pn Suc.prems(2) Suc.prems(3)] Suc.prems(4) by simp
    ultimately show ?thesis by (auto simp add: thread_start)
  qed
qed

lemma end_written:
  assumes "0 < p" and "p < n" and "keys ! (p - 1) = c" and "keys ! p \<noteq> c"
    and "\<forall>q. p < q \<and> q < n \<longrightarrow> keys ! (q - 1) \<noteq> c \<and> keys ! q \<noteq> c"
  shows "snd (fold (identifyCellStartEnd_thread N keys) [0..<n] t) c = int p"
  using assms
proof (induction n)
  case 0
  then show ?case by simp
next
  case (Suc n)
  show ?case
  proof (cases "p = n")
    case True
    with Suc.prems show ?thesis by (simp add: thread_end)
  next
    case False
    with Suc.prems have pn: "p < n" by simp
    from Suc.prems pn have "keys ! (n - 1) \<noteq> c \<and> keys ! n \<noteq> c" by simp
    moreover have "snd (fold (identifyCellStartEnd_thread N keys) [0..<n] t) c = int p"
      using Suc.IH[OF Suc.prems(1) pn Suc.prems(3) Suc.prems(4)] Suc.prems(5) by simp
    ultimately show ?thesis by (simp add: thread_end)
  qed
qed

lemma end_written_last:
  assumes "2 \<le> N" and "keys ! (N - 1) = c"
  shows "snd (kernIdentifyCellStartEnd N keys st en) c = int N"
proof -
  from assms(1) obtain n where n: "N = Suc n" "0 < n" by (cases N) auto
  show ?thesis
    using assms(2) n by (simp add: kernIdentifyCellStartEnd_def thread_end)
qed

text \<open>
  On sorted keys of at least two boids, the slots of the half-open range stored for a
  nonempty cell are exactly the slots whose key is that cell, whatever the tables held
  before.
\<close>

lemma cell_ranges_partition:
  assumes srt: "sorted keys" and len: "length keys = N" and N2: "2 \<le> N" and cin: "c \<in> set keys"
  shows "(fst (kernIdentifyCellStartEnd N keys st en) c \<le> int q
          \<and> int q < snd (kernIdentifyCellStartEnd N keys st en) c)
         \<longleftrightarrow> (q < N \<and> keys ! q = c)"
proof -
  let ?P = "\<lambda>i. i < N \<and> keys ! i = c"
  from cin len obtain i0 where i0: "?P i0" by (auto simp add: in_set_conv_nth)
  define f where "f = (LEAST i. ?P i)"
  define l where "l = (GREATEST i. ?P i)"
  have f: "?P f" unfolding f_def using i0 by (rule LeastI)
  have fmin: "\<not> ?P i" if "i < f" for i using that not_less_Least unfolding f_def by blast
  have bnd: "i \<le> N" if "?P i" for i using that by simp
  have l: "?P l" unfolding l_def using i0 bnd by (rule GreatestI_nat[where b = N])
  have lmax: "i \<le> l" if "?P i" for i unfolding l_def using that bnd by (rule Greatest_le_nat[where b = N])
  have fl: "f \<le> l" using lmax[OF f] .
  have mid: "keys ! i = c" if "f \<le> i" "i \<le> l" for i
  proof -
    have "i < length keys" "l < length keys" using that(2) l len by simp_all
    then have "keys ! f \<le> keys ! i" "keys ! i \<le> keys ! l"
      using srt that sorted_nth_mono[of keys f i] sorted_nth_mono[of keys i l] by simp_all
    then show ?thesis using f l by simp
  qed
  have iff: "?P i \<longleftrightarrow> f \<le> i \<and> i \<le> l" for i
    using fmin[of i] lmax[of i] mid[of i] l by (metis le_less_trans not_le_imp_less)
  have st: "fst (kernIdentifyCellStartEnd N keys st en) c = int f"
    unfolding kernIdentifyCellStartEnd_def
  proof (rule start_written)
    show "f < N" using f by simp
    show "keys ! f = c" using f by simp
    show "f = 0 \<or> keys ! (f - 1) \<noteq> c" using fmin[of "f - 1"] f by (cases f) auto
    show "\<forall>q. f < q \<and> q < N \<longrightarrow> \<not> (keys ! q = c \<and> keys ! (q - 1) \<noteq> c)"
    proof (intro allI impI notI)
      fix q assume a: "f < q \<and> q < N" and b: "keys ! q = c \<and> keys ! (q - 1) \<noteq> c"
      then have "q \<le> l" using lmax[of q] by simp
      then have "f \<le> q - 1" "q - 1 \<le> l" using a by linarith+
      then have "keys ! (q - 1) = c" by (rule mid)
      with b show False by simp
    qed
  qed
  have en: "snd (kernIdentifyCellStartEnd N keys st en) c = int l + 1"
  proof (cases "l = N - 1")
    case True
    then show ?thesis using end_written_last[OF N2, of keys c st en] l N2 by simp
  next
    case False
    with l have l1: "Suc l < N" by linarith
    have "snd (fold (identifyCellStartEnd_thread N keys) [0..<N] (st, en)) c = int (Suc l)"
    proof (rule end_written)
      show "0 < Suc l" by simp
      show "Suc l < N" by (rule l1)
      show "keys ! (Suc l - 1) = c" using l by simp
      show "keys ! Suc l \<noteq> c" using lmax[of "Suc l"] l1 by auto
      show "\<forall>q. Suc l < q \<and> q < N \<longrightarrow> keys ! (q - 1) \<noteq> c \<and> keys ! q \<noteq> c"
      proof (intro allI impI)
        fix q assume a: "Suc l < q \<and> q < N"
        have "\<not> ?P (q - 1)" using lmax[of "q - 1"] a by auto
        moreover have "\<not> ?P q" using lmax[of q] a by auto
        moreover have "q - 1 < N" using a by linarith
        ultimately show "keys ! (q - 1) \<noteq> c \<and> keys ! q \<noteq> c" using a by blast
      qed
    qed
    then show ?thesis by (simp add: kernIdentifyCellStartEnd_def)
  qed
  show ?thesis using iff[of q] by (simp add: st en)
qed

text \<open>The reset changes the entries below its count and no other; the cell
  boundaries of a step with at least two boids are those of the sorted keys.\<close>

lemma kernResetIntBuffer_entry:
  "kernResetIntBuffer N intBuffer v c = (if 0 \<le> c \<and> c < int N then v else intBuffer c)"
  unfolding kernResetIntBuffer_def
proof (induction N)
  case 0
  show ?case by simp
next
  case (Suc N)
  then show ?case by auto
qed

lemma build_grid_keys:
  "sorted (dev_particleGridIndices (build_grid s))"
  "length (dev_particleGridIndices (build_grid s)) = numObjects s"
  by (simp_all add: build_grid_def Let_def sort_by_key_props)
     (simp add: sort_by_key_def kernComputeIndices_def Let_def)

lemma build_grid_partition:
  assumes "2 \<le> numObjects s" and "c \<in> set (dev_particleGridIndices (build_grid s))"
  shows "(dev_gridCellStartIndices (build_grid s) c \<le> int q
          \<and> int q < dev_gridCellEndIndices (build_grid s) c)
         \<longleftrightarrow> (q < numObjects s \<and> dev_particleGridIndices (build_grid s) ! q = c)"
proof -
  let ?keys = "dev_particleGridIndices (build_grid s)"
  let ?st = "kernResetIntBuffer (numObjects s) (dev_gridCellStartIndices s) (- 1)"
  let ?en = "kernResetIntBuffer (numObjects s) (dev_gridCellEndIndices s) (- 1)"
  have t: "dev_gridCellStartIndices (build_grid s) c
             = fst (kernIdentifyCellStartEnd (numObjects s) ?keys ?st ?en) c"
    "dev_gridCellEndIndices (build_grid s) c
             = snd (kernIdentifyCellStartEnd (numObjects s) ?keys ?st ?en) c"
    by (simp_all add: build_grid_def Let_def)
  show ?thesis
    unfolding t
    using build_grid_keys(1) build_grid_keys(2) assms
    by (rule cell_ranges_partition)
qed

text \<open>
  Claim C3 says that every one of the \<open>gridCellCount\<close> entries of both cell tables is
  reset to the sentinel before the cell boundaries are identified, and that for every
  \<open>N > 0\<close> the ranges of the nonempty cells partition the sorted slots. The code does
  otherwise on a single boid with cell tables of zeroed memory: the reset, launched with
  the count \<open>N = 1\<close>, leaves entry \<open>1\<close> of a table at \<open>0\<close> although the table has
  \<open>gridCellCount = 10648\<close> entries; and after \<^verbatim>\<open>kernIdentifyCellStartEnd\<close> the cell
  \<open>5577\<close> of the boid has start \<open>0\<close> and end \<open>0\<close>, the thread of slot \<open>0\<close> having
  returned before the end is written, so the range of the only nonempty cell does not
  cover slot \<open>0\<close>.
\<close>

theorem tables_on_single_boid:
  "kernResetIntBuffer (numObjects single_state) (dev_gridCellStartIndices single_state) (- 1) 1
     = 0
   \<and> (1::int) < gridCellCount
   \<and> dev_particleGridIndices (build_grid single_state) = [5577]
   \<and> dev_gridCellStartIndices (build_grid single_state) 5577 = 0
   \<and> dev_gridCellEndIndices (build_grid single_state) 5577 = 0"
  by (simp add: single_build_grid grid_params)
     (simp add: single_state_def kernResetIntBuffer_def)

end
